theory Spec2Isabelle
  imports Main
begin

section \<open>Python values\<close>

text \<open>
  The handlers of \<^verbatim>\<open>app/routes.py\<close> are dynamically typed: a field of a JSON body, the
  identity of a token and a column of a row are compared and tested for truth as Python
  values. The values that occur are \<^verbatim>\<open>None\<close>, booleans, integers and strings.
\<close>

datatype pyval = PyNone | PyBool bool | PyInt int | PyStr string

text \<open>Truth of a value, as \<^verbatim>\<open>not x\<close> and \<^verbatim>\<open>if x\<close> read it.\<close>

fun truthy :: "pyval \<Rightarrow> bool" where
  "truthy PyNone = False"
| "truthy (PyBool b) = b"
| "truthy (PyInt n) = (n \<noteq> 0)"
| "truthy (PyStr s) = (s \<noteq> [])"

text \<open>
  Python's \<^verbatim>\<open>==\<close>: an integer and a string are never equal (\<^verbatim>\<open>1 == "1"\<close> is false);
  a boolean is the integer 0 or 1.
\<close>

fun py_eq :: "pyval \<Rightarrow> pyval \<Rightarrow> bool" where
  "py_eq PyNone PyNone = True"
| "py_eq (PyBool a) (PyBool b) = (a = b)"
| "py_eq (PyInt a) (PyInt b) = (a = b)"
| "py_eq (PyBool a) (PyInt b) = ((if a then 1 else 0) = b)"
| "py_eq (PyInt a) (PyBool b) = (a = (if b then 1 else 0))"
| "py_eq (PyStr a) (PyStr b) = (a = b)"
| "py_eq _ _ = False"

definition py_ne :: "pyval \<Rightarrow> pyval \<Rightarrow> bool" where
  "py_ne a b = (\<not> py_eq a b)"


subsection \<open>\<^verbatim>\<open>str(n)\<close> of an integer\<close>

text \<open>The decimal digits of a number, most significant first; a digit is below 10.\<close>

definition digit_char :: "nat \<Rightarrow> char" where
  "digit_char d = ''0123456789'' ! d"

function str_nat :: "nat \<Rightarrow> string" where
  "str_nat n = (if n < 10 then [digit_char n] else str_nat (n div 10) @ [digit_char (n mod 10)])"
  by pat_completeness auto
termination
  by (relation "measure id") auto

declare str_nat.simps [simp del]

definition py_str :: "int \<Rightarrow> string" where
  "py_str i = (if i < 0 then CHR ''-'' # str_nat (nat (- i)) else str_nat (nat i))"

subsection \<open>The store's reading of an integer literal\<close>

text \<open>
  A string bound to an \<^verbatim>\<open>Integer\<close> column, or compared with one, reaches the store as
  a quoted literal. The store reads it as a decimal number with an optional sign, blanks
  before and after it allowed, and takes it when it is in the range of a 32-bit integer.
\<close>

definition digit_val :: "char \<Rightarrow> nat option" where
  "digit_val c = map_of (zip ''0123456789'' [0, 1, 2, 3, 4, 5, 6, 7, 8, 9]) c"

fun parse_digits :: "nat \<Rightarrow> string \<Rightarrow> nat option" where
  "parse_digits acc [] = Some acc"
| "parse_digits acc (c # cs) =
     (case digit_val c of None \<Rightarrow> None | Some d \<Rightarrow> parse_digits (10 * acc + d) cs)"

definition parse_nat :: "string \<Rightarrow> nat option" where
  "parse_nat s = (if s = [] then None else parse_digits 0 s)"

definition is_blank :: "char \<Rightarrow> bool" where
  "is_blank c = (c \<in> set [CHR '' '', CHR 0x09, CHR 0x0A, CHR 0x0B, CHR 0x0C, CHR 0x0D])"

definition strip :: "string \<Rightarrow> string" where
  "strip s = rev (dropWhile is_blank (rev (dropWhile is_blank s)))"

definition pg_int :: "string \<Rightarrow> int option" where
  "pg_int s =
     (case strip s of
        [] \<Rightarrow> None
      | c # ds \<Rightarrow>
          if c = CHR ''-'' then map_option (\<lambda>n. - int n) (parse_nat ds)
          else if c = CHR ''+'' then map_option int (parse_nat ds)
          else map_option int (parse_nat (c # ds)))"

definition in_int4 :: "int \<Rightarrow> bool" where
  "in_int4 n = (- 2147483648 \<le> n \<and> n \<le> 2147483647)"

definition pg_int4 :: "string \<Rightarrow> int option" where
  "pg_int4 s =
     (case pg_int s of None \<Rightarrow> None | Some n \<Rightarrow> if in_int4 n then Some n else None)"

section \<open>Exceptions and JSON bodies\<close>

text \<open>
  What a failed commit reports: the store could not be reached (\<open>StoreFault\<close>), or the
  row breaks what \<^verbatim>\<open>app/models.py\<close> declares of the named column: \<^verbatim>\<open>nullable=False\<close>,
  \<^verbatim>\<open>unique=True\<close> or the primary key, a foreign key, or the column's type and length
  (\<open>BadValue\<close>).
\<close>

datatype cause = StoreFault | NotNull string | Unique string | ForeignKey string | BadValue string

datatype exn =
    KeyError string
  | AttributeError string
  | EmailNotValidError string
  | StatementError string
  | CommitError cause

type_synonym json = "string \<rightharpoonup> pyval"

text \<open>\<^verbatim>\<open>data.get(k)\<close>, \<^verbatim>\<open>data.get(k, d)\<close>, \<^verbatim>\<open>data[k]\<close> and \<^verbatim>\<open>k in data\<close>.\<close>

definition dict_get :: "json \<Rightarrow> string \<Rightarrow> pyval" where
  "dict_get data k = (case data k of None \<Rightarrow> PyNone | Some v \<Rightarrow> v)"

definition dict_get_default :: "json \<Rightarrow> string \<Rightarrow> pyval \<Rightarrow> pyval" where
  "dict_get_default data k d = (case data k of None \<Rightarrow> d | Some v \<Rightarrow> v)"

definition dict_index :: "json \<Rightarrow> string \<Rightarrow> exn + pyval" where
  "dict_index data k = (case data k of None \<Rightarrow> Inl (KeyError k) | Some v \<Rightarrow> Inr v)"

definition dict_has :: "json \<Rightarrow> string \<Rightarrow> bool" where
  "dict_has data k = (data k \<noteq> None)"

section \<open>The store\<close>

text \<open>The three tables of \<^verbatim>\<open>app/models.py\<close>, a row per record, in insertion order.\<close>

record user =
  u_id :: int
  u_username :: string
  u_email :: string
  u_password_hash :: string

record post =
  p_id :: int
  p_title :: string
  p_content :: string
  p_created_at :: nat
  p_updated_at :: nat
  p_author_id :: int

record comment =
  c_id :: int
  c_content :: string
  c_created_at :: nat
  c_post_id :: int
  c_author_id :: int

record db =
  users :: "user list"
  posts :: "post list"
  comments :: "comment list"

subsection \<open>Values bound to columns\<close>

definition sbind :: "'e + 'a \<Rightarrow> ('a \<Rightarrow> 'e + 'b) \<Rightarrow> 'e + 'b" where
  "sbind m f = (case m of Inl e \<Rightarrow> Inl e | Inr x \<Rightarrow> f x)"

text \<open>
  Every column is \<^verbatim>\<open>nullable=False\<close>, so \<^verbatim>\<open>None\<close> is refused. A \<^verbatim>\<open>Text\<close> or
  \<^verbatim>\<open>String\<close> column takes a string as it is, and a number or a boolean as its text.
\<close>

definition as_text :: "string \<Rightarrow> pyval \<Rightarrow> cause + string" where
  "as_text col v =
     (case v of
        PyStr s \<Rightarrow> Inr s
      | PyNone \<Rightarrow> Inl (NotNull col)
      | PyBool b \<Rightarrow> Inr (if b then ''true'' else ''false'')
      | PyInt n \<Rightarrow> Inr (py_str n))"

text \<open>
  A \<^verbatim>\<open>String(n)\<close> column takes a text of at most \<open>n\<close> characters. A longer one is
  refused, unless all it has beyond \<open>n\<close> characters is spaces, which the store cuts off.
\<close>

definition varchar :: "nat \<Rightarrow> string \<Rightarrow> string option" where
  "varchar n s =
     (if length s \<le> n then Some s
      else if list_all (\<lambda>c. c = CHR '' '') (drop n s) then Some (take n s)
      else None)"

definition as_varchar :: "nat \<Rightarrow> string \<Rightarrow> pyval \<Rightarrow> cause + string" where
  "as_varchar n col v =
     sbind (as_text col v) (\<lambda>s.
       case varchar n s of None \<Rightarrow> Inl (BadValue col) | Some t \<Rightarrow> Inr t)"

text \<open>
  An \<^verbatim>\<open>Integer\<close> column takes an integer in the range of 32 bits, or a string that
  reads as one; a boolean is refused.
\<close>

definition as_int :: "string \<Rightarrow> pyval \<Rightarrow> cause + int" where
  "as_int col v =
     (case v of
        PyInt n \<Rightarrow> if in_int4 n then Inr n else Inl (BadValue col)
      | PyStr s \<Rightarrow> (case pg_int4 s of None \<Rightarrow> Inl (BadValue col) | Some n \<Rightarrow> Inr n)
      | PyNone \<Rightarrow> Inl (NotNull col)
      | PyBool b \<Rightarrow> Inl (BadValue col))"

subsection \<open>Queries\<close>

text \<open>\<^verbatim>\<open>User.query.filter_by(username=v).first()\<close>: the first row, or \<^verbatim>\<open>None\<close>.\<close>

definition user_by_username :: "db \<Rightarrow> pyval \<Rightarrow> exn + user option" where
  "user_by_username s v =
     (case v of
        PyStr n \<Rightarrow> Inr (find (\<lambda>u. u_username u = n) (users s))
      | PyNone \<Rightarrow> Inr None
      | PyBool b \<Rightarrow> Inl (StatementError ''user.username'')
      | PyInt i \<Rightarrow> Inl (StatementError ''user.username''))"

text \<open>\<^verbatim>\<open>Post.query.get(id)\<close> and \<^verbatim>\<open>Comment.query.get(id)\<close>.\<close>

definition post_get :: "db \<Rightarrow> int \<Rightarrow> post option" where
  "post_get s i = find (\<lambda>p. p_id p = i) (posts s)"

definition comment_get :: "db \<Rightarrow> int \<Rightarrow> comment option" where
  "comment_get s i = find (\<lambda>c. c_id c = i) (comments s)"

text \<open>
  \<^verbatim>\<open>Post.query.get(data["post_id"])\<close>, the key taken from a JSON body. The store compares
  a number with the column as a number, so one outside the column's range finds no row;
  it reads a string as an integer of the column's type, and the statement fails where
  the string is none.
\<close>

definition post_get_value :: "db \<Rightarrow> pyval \<Rightarrow> exn + post option" where
  "post_get_value s v =
     (case v of
        PyInt i \<Rightarrow> Inr (post_get s i)
      | PyStr t \<Rightarrow>
          (case pg_int4 t of None \<Rightarrow> Inl (StatementError ''post.id'') | Some i \<Rightarrow> Inr (post_get s i))
      | PyNone \<Rightarrow> Inr None
      | PyBool b \<Rightarrow> Inl (StatementError ''post.id''))"

text \<open>\<^verbatim>\<open>x.author.username\<close>: the relationship to the row's author.\<close>

definition author_username :: "db \<Rightarrow> int \<Rightarrow> exn + string" where
  "author_username s a =
     (case find (\<lambda>u. u_id u = a) (users s) of
        None \<Rightarrow> Inl (AttributeError ''username'')
      | Some u \<Rightarrow> Inr (u_username u))"

subsection \<open>The session and its commit\<close>

text \<open>
  What a handler has put in the session when it calls \<^verbatim>\<open>db.session.commit()\<close>: one new
  object (\<^verbatim>\<open>db.session.add\<close>), one object with attributes assigned, or one object marked
  for deletion (\<^verbatim>\<open>db.session.delete\<close>). The objects hold the Python values the handler
  gave them.
\<close>

datatype pending =
    AddUser pyval pyval string
  | AddPost pyval pyval pyval
  | SetPost int pyval pyval
  | DeletePost int
  | AddComment pyval pyval pyval
  | SetComment int pyval
  | DeleteComment int

text \<open>
  The flush writes the pending object under what \<^verbatim>\<open>app/models.py\<close> declares: the types
  and lengths of the columns (\<^verbatim>\<open>String(500)\<close> for the three columns of a user,
  \<^verbatim>\<open>String(100)\<close> for the title of a post), \<^verbatim>\<open>nullable=False\<close>, the primary keys,
  \<^verbatim>\<open>unique=True\<close> on \<^verbatim>\<open>User.username\<close> and \<^verbatim>\<open>User.email\<close>, and the foreign keys.
  The primary key of a new row is the next value of the table's sequence. The sequence is
  the store's own: it moves on at every insert, refused or not, and never goes back, so
  the value is given from outside (\<open>new_id\<close>) and only its uniqueness is checked here.
  \<^verbatim>\<open>Post.comments\<close> is a relationship with no cascade and \<^verbatim>\<open>Comment.post_id\<close> is a
  foreign key that is not nullable, so a post that a comment still refers to cannot be
  deleted: the comment can neither be detached (its \<^verbatim>\<open>post_id\<close> may not be empty) nor be
  left referring to a post that is gone. \<^verbatim>\<open>created_at\<close> and \<^verbatim>\<open>updated_at\<close> default to
  the clock, and \<^verbatim>\<open>updated_at\<close> is refreshed when a row is rewritten.
\<close>

fun flush :: "nat \<Rightarrow> int \<Rightarrow> pending \<Rightarrow> db \<Rightarrow> cause + db" where
  "flush clock new_id (AddUser un em ph) s =
     sbind (as_varchar 500 ''user.username'' un) (\<lambda>n.
     sbind (as_varchar 500 ''user.email'' em) (\<lambda>e.
     sbind (as_varchar 500 ''user.password_hash'' (PyStr ph)) (\<lambda>h.
       if new_id \<in> set (map u_id (users s)) then Inl (Unique ''user.id'')
       else if n \<in> set (map u_username (users s)) then Inl (Unique ''user.username'')
       else if e \<in> set (map u_email (users s)) then Inl (Unique ''user.email'')
       else Inr (s\<lparr>users := users s @
              [\<lparr>u_id = new_id, u_username = n, u_email = e, u_password_hash = h\<rparr>]\<rparr>))))"
| "flush clock new_id (AddPost ti co au) s =
     sbind (as_varchar 100 ''post.title'' ti) (\<lambda>t.
     sbind (as_text ''post.content'' co) (\<lambda>c.
     sbind (as_int ''post.author_id'' au) (\<lambda>a.
       if new_id \<in> set (map p_id (posts s)) then Inl (Unique ''post.id'')
       else if a \<in> set (map u_id (users s))
       then Inr (s\<lparr>posts := posts s @
              [\<lparr>p_id = new_id, p_title = t, p_content = c,
                p_created_at = clock, p_updated_at = clock, p_author_id = a\<rparr>]\<rparr>)
       else Inl (ForeignKey ''post.author_id''))))"
| "flush clock new_id (SetPost i ti co) s =
     sbind (as_varchar 100 ''post.title'' ti) (\<lambda>t.
     sbind (as_text ''post.content'' co) (\<lambda>c.
       Inr (s\<lparr>posts := map (\<lambda>p.
              if p_id p = i
              then (if p_title p = t \<and> p_content p = c then p
                    else p\<lparr>p_title := t, p_content := c, p_updated_at := clock\<rparr>)
              else p) (posts s)\<rparr>)))"
| "flush clock new_id (DeletePost i) s =
     (if \<exists>c \<in> set (comments s). c_post_id c = i then Inl (NotNull ''comment.post_id'')
      else Inr (s\<lparr>posts := filter (\<lambda>p. p_id p \<noteq> i) (posts s)\<rparr>))"
| "flush clock new_id (AddComment co po au) s =
     sbind (as_text ''comment.content'' co) (\<lambda>c.
     sbind (as_int ''comment.post_id'' po) (\<lambda>p.
     sbind (as_int ''comment.author_id'' au) (\<lambda>a.
       if new_id \<in> set (map c_id (comments s)) then Inl (Unique ''comment.id'')
       else if p \<in> set (map p_id (posts s))
       then (if a \<in> set (map u_id (users s))
             then Inr (s\<lparr>comments := comments s @
                    [\<lparr>c_id = new_id, c_content = c,
                      c_created_at = clock, c_post_id = p, c_author_id = a\<rparr>]\<rparr>)
             else Inl (ForeignKey ''comment.author_id''))
       else Inl (ForeignKey ''comment.post_id''))))"
| "flush clock new_id (SetComment i co) s =
     sbind (as_text ''comment.content'' co) (\<lambda>c.
       Inr (s\<lparr>comments := map (\<lambda>x. if c_id x = i then x\<lparr>c_content := c\<rparr> else x) (comments s)\<rparr>))"
| "flush clock new_id (DeleteComment i) s =
     Inr (s\<lparr>comments := filter (\<lambda>x. c_id x \<noteq> i) (comments s)\<rparr>)"

section \<open>The environment of a request\<close>

text \<open>
  What a handler takes from outside the repository: the server clock, the signing secret
  of \<^verbatim>\<open>app/__init__.py\<close> and the lifetime of a token, the verdict of the email validator
  on an address (the message of its \<^verbatim>\<open>EmailNotValidError\<close>, or \<open>None\<close> for an address it
  accepts), the hash of a password and whether a password matches a hash, the next value
  of the sequence for a row this request inserts, and whether the store can be reached.
\<close>

record env =
  now :: nat
  secret :: string
  ttl :: nat
  email_problem :: "string \<Rightarrow> string option"
  password_hash :: "string \<Rightarrow> string"
  password_matches :: "string \<Rightarrow> string \<Rightarrow> bool"
  next_id :: int
  store_fault :: bool

subsection \<open>The library calls of \<^verbatim>\<open>register_user\<close> and \<^verbatim>\<open>login_user\<close>\<close>

text \<open>
  The three calls take strings. \<^verbatim>\<open>validate_email\<close> returns for an address it accepts
  and raises \<^verbatim>\<open>EmailNotValidError\<close> for one it does not; given a value that is not a
  string it raises another exception. \<^verbatim>\<open>generate_password_hash\<close> and
  \<^verbatim>\<open>check_password_hash\<close> raise when the password is not a string;
  \<^verbatim>\<open>check_password_hash\<close> first splits the stored hash at its \<^verbatim>\<open>$\<close> signs into method,
  salt and digest, and answers \<^verbatim>\<open>False\<close> for a hash without them.
\<close>

definition validate_email :: "env \<Rightarrow> pyval \<Rightarrow> exn + unit" where
  "validate_email e v =
     (case v of
        PyStr a \<Rightarrow>
          (case email_problem e a of None \<Rightarrow> Inr () | Some m \<Rightarrow> Inl (EmailNotValidError m))
      | PyNone \<Rightarrow> Inl (AttributeError ''decode'')
      | PyBool b \<Rightarrow> Inl (AttributeError ''decode'')
      | PyInt n \<Rightarrow> Inl (AttributeError ''decode''))"

definition generate_password_hash :: "env \<Rightarrow> pyval \<Rightarrow> exn + string" where
  "generate_password_hash e v =
     (case v of
        PyStr p \<Rightarrow> Inr (password_hash e p)
      | PyNone \<Rightarrow> Inl (AttributeError ''encode'')
      | PyBool b \<Rightarrow> Inl (AttributeError ''encode'')
      | PyInt n \<Rightarrow> Inl (AttributeError ''encode''))"

definition check_password_hash :: "env \<Rightarrow> string \<Rightarrow> pyval \<Rightarrow> exn + bool" where
  "check_password_hash e pwhash v =
     (if count_list pwhash (CHR ''$'') < 2 then Inr False
      else
        (case v of
           PyStr p \<Rightarrow> Inr (password_matches e pwhash p)
         | PyNone \<Rightarrow> Inl (AttributeError ''encode'')
         | PyBool b \<Rightarrow> Inl (AttributeError ''encode'')
         | PyInt n \<Rightarrow> Inl (AttributeError ''encode'')))"

subsection \<open>The commit\<close>

text \<open>
  \<^verbatim>\<open>db.session.commit()\<close>: the pending object is written, or the commit raises and the
  store keeps the rows it had. The session belongs to the request, so a pending object
  that was not committed is gone when the request ends, with or without a call of
  \<^verbatim>\<open>db.session.rollback()\<close>; queries always answer.
\<close>

definition commit :: "env \<Rightarrow> pending \<Rightarrow> db \<Rightarrow> exn + db" where
  "commit e w s =
     (if store_fault e then Inl (CommitError StoreFault)
      else case flush (now e) (next_id e) w s of
             Inl c \<Rightarrow> Inl (CommitError c)
           | Inr s' \<Rightarrow> Inr s')"

section \<open>Tokens\<close>

datatype auth_error = Missing | Invalid | Expired

text \<open>The signature of a payload under a key, as a symbolic term.\<close>

datatype signature = Sig string pyval nat

record token =
  t_sub :: pyval
  t_exp :: nat
  t_sig :: signature

text \<open>
  Modelled from the spec: the token issuer and verifier are the JWT library, which is not
  in the repository. \<open>issue\<close> produces a signed token embedding the identity and an
  expiry timestamp; \<open>verify\<close> fails with \<open>Invalid\<close> when the signature does not match
  and with \<open>Expired\<close> when the expiry has passed, and gives the identity otherwise.
\<close>

definition issue :: "string \<Rightarrow> nat \<Rightarrow> nat \<Rightarrow> pyval \<Rightarrow> token" where
  "issue key clock life ident =
     \<lparr>t_sub = ident, t_exp = clock + life, t_sig = Sig key ident (clock + life)\<rparr>"

definition verify :: "string \<Rightarrow> nat \<Rightarrow> token \<Rightarrow> auth_error + pyval" where
  "verify key clock t =
     (if t_sig t = Sig key (t_sub t) (t_exp t)
      then (if t_exp t < clock then Inl Expired else Inr (t_sub t))
      else Inl Invalid)"

definition create_access_token :: "env \<Rightarrow> pyval \<Rightarrow> token" where
  "create_access_token e ident = issue (secret e) (now e) (ttl e) ident"

section \<open>Requests and replies\<close>

text \<open>
  A request: \<^verbatim>\<open>request.is_json\<close>, the JSON object that \<^verbatim>\<open>request.get_json()\<close> gives, and
  the bearer token of its \<^verbatim>\<open>Authorization\<close> header, if it has one.
\<close>

record request =
  is_json :: bool
  json :: json
  bearer :: "token option"

record post_view =
  pv_id :: int
  pv_title :: string
  pv_content :: string
  pv_author :: string
  pv_created_at :: nat
  pv_updated_at :: nat

record comment_view =
  cv_id :: int
  cv_content :: string
  cv_author :: string
  cv_created_at :: nat

text \<open>
  The JSON a handler answers with: a message, a message with \<^verbatim>\<open>str(e)\<close> of the exception
  it caught, the access token, a post, an updated post under its message, or a comment.
  \<open>AuthFailure\<close> is the guard's answer and \<open>ServerError\<close> the framework's page for an
  exception no handler caught.
\<close>

datatype body =
    Message string
  | MessageError string exn
  | AccessToken token
  | PostJson post_view
  | PostUpdated string post_view
  | CommentJson comment_view
  | AuthFailure auth_error
  | ServerError

text \<open>A handler returns a body with a status, or an exception leaves it.\<close>

datatype reply = Reply nat body | Raise exn

text \<open>The framework turns an exception that left the handler into its own 500 page.\<close>

definition flask :: "reply \<Rightarrow> nat \<times> body" where
  "flask r = (case r of Reply code b \<Rightarrow> (code, b) | Raise x \<Rightarrow> (500, ServerError))"

definition status :: "reply \<Rightarrow> nat" where
  "status r = fst (flask r)"

text \<open>
  Modelled from the spec: \<^verbatim>\<open>jwt_required\<close> is the JWT library's decorator. It extracts
  the bearer token and verifies it; on failure it answers 401 and does not invoke the
  handler; on success the handler runs with the token's identity as
  \<^verbatim>\<open>get_jwt_identity()\<close>.
\<close>

definition jwt_required ::
  "env \<Rightarrow> request \<Rightarrow> (pyval \<Rightarrow> db \<Rightarrow> reply \<times> db) \<Rightarrow> db \<Rightarrow> reply \<times> db" where
  "jwt_required e req handler s =
     (case bearer req of
        None \<Rightarrow> (Reply 401 (AuthFailure Missing), s)
      | Some t \<Rightarrow>
          (case verify (secret e) (now e) t of
             Inl err \<Rightarrow> (Reply 401 (AuthFailure err), s)
           | Inr ident \<Rightarrow> handler ident s))"

definition view_post :: "db \<Rightarrow> post \<Rightarrow> exn + post_view" where
  "view_post s p =
     sbind (author_username s (p_author_id p)) (\<lambda>a.
       Inr \<lparr>pv_id = p_id p, pv_title = p_title p, pv_content = p_content p, pv_author = a,
            pv_created_at = p_created_at p, pv_updated_at = p_updated_at p\<rparr>)"

definition view_comment :: "db \<Rightarrow> comment \<Rightarrow> exn + comment_view" where
  "view_comment s c =
     sbind (author_username s (c_author_id c)) (\<lambda>a.
       Inr \<lparr>cv_id = c_id c, cv_content = c_content c, cv_author = a,
            cv_created_at = c_created_at c\<rparr>)"

section \<open>The handlers of \<^verbatim>\<open>app/routes.py\<close>\<close>

definition register_user :: "env \<Rightarrow> request \<Rightarrow> db \<Rightarrow> reply \<times> db" where
  "register_user e req s =
     (let data = json req in
      if \<not> (truthy (dict_get data ''username'') \<and> truthy (dict_get data ''email'')
             \<and> truthy (dict_get data ''password''))
      then (Reply 400 (Message ''Missing required fields: username, email, or password''), s)
      else
        (case validate_email e (dict_get data ''email'') of
           Inl x \<Rightarrow>
             (case x of
                EmailNotValidError m \<Rightarrow> (Reply 400 (Message (''Invalid email address: '' @ m)), s)
              | KeyError k \<Rightarrow> (Reply 500 (MessageError ''Internal Server Error'' x), s)
              | AttributeError a \<Rightarrow> (Reply 500 (MessageError ''Internal Server Error'' x), s)
              | StatementError c \<Rightarrow> (Reply 500 (MessageError ''Internal Server Error'' x), s)
              | CommitError c \<Rightarrow> (Reply 500 (MessageError ''Internal Server Error'' x), s))
         | Inr ok \<Rightarrow>
             (case user_by_username s (dict_get data ''username'') of
                Inl x \<Rightarrow> (Reply 500 (MessageError ''Internal Server Error'' x), s)
              | Inr (Some u) \<Rightarrow> (Reply 400 (Message ''Username already exists!''), s)
              | Inr None \<Rightarrow>
                  (case generate_password_hash e (dict_get data ''password'') of
                     Inl x \<Rightarrow> (Reply 500 (MessageError ''Internal Server Error'' x), s)
                   | Inr hashed_password \<Rightarrow>
                       (case commit e (AddUser (dict_get data ''username'')
                                         (dict_get data ''email'') hashed_password) s of
                          Inl x \<Rightarrow> (Reply 500 (MessageError ''Internal Server Error'' x), s)
                        | Inr s' \<Rightarrow> (Reply 201 (Message ''User created successfully!''), s'))))))"

text \<open>
  In \<^verbatim>\<open>login_user\<close> nothing is caught: an exception of the query or of
  \<^verbatim>\<open>check_password_hash\<close> leaves the handler.
\<close>

definition login_user :: "env \<Rightarrow> request \<Rightarrow> db \<Rightarrow> reply \<times> db" where
  "login_user e req s =
     (if \<not> is_json req then (Reply 400 (Message ''Missing JSON in request''), s)
      else
        (let data = json req in
         if \<not> (dict_has data ''username'' \<and> dict_has data ''password'')
         then (Reply 400 (Message ''Missing 'username' or 'password' field''), s)
         else
           (case user_by_username s (dict_get data ''username'') of
              Inl x \<Rightarrow> (Raise x, s)
            | Inr None \<Rightarrow> (Reply 401 (Message ''Invalid credentials''), s)
            | Inr (Some u) \<Rightarrow>
                (case check_password_hash e (u_password_hash u) (dict_get data ''password'') of
                   Inl x \<Rightarrow> (Raise x, s)
                 | Inr matches \<Rightarrow>
                     if matches
                     then (Reply 200 (AccessToken
                             (create_access_token e (PyStr (py_str (u_id u))))), s)
                     else (Reply 401 (Message ''Invalid credentials''), s)))))"

definition create_post :: "env \<Rightarrow> request \<Rightarrow> db \<Rightarrow> reply \<times> db" where
  "create_post e req =
     jwt_required e req (\<lambda>current_user_id s.
       let data = json req in
       if \<not> (truthy (dict_get data ''title'') \<and> truthy (dict_get data ''content''))
       then (Reply 400 (Message ''Title and content are required!''), s)
       else
         (case commit e (AddPost (dict_get data ''title'') (dict_get data ''content'')
                           current_user_id) s of
            Inl x \<Rightarrow> (Reply 500 (MessageError ''Error creating post'' x), s)
          | Inr s' \<Rightarrow> (Reply 201 (Message ''Post created successfully!''), s')))"

definition get_post :: "int \<Rightarrow> db \<Rightarrow> reply \<times> db" where
  "get_post i s =
     (case post_get s i of
        Some p \<Rightarrow>
          (case view_post s p of
             Inl x \<Rightarrow> (Raise x, s)
           | Inr v \<Rightarrow> (Reply 200 (PostJson v), s))
      | None \<Rightarrow> (Reply 404 (Message ''Post not found!''), s))"

text \<open>
  In \<^verbatim>\<open>update_post\<close> the answer is built inside the \<^verbatim>\<open>try\<close>, after the commit, from the
  row as the store now has it, so an exception there is answered like a failed commit.
\<close>

definition update_post :: "env \<Rightarrow> int \<Rightarrow> request \<Rightarrow> db \<Rightarrow> reply \<times> db" where
  "update_post e i req =
     jwt_required e req (\<lambda>current_user_id s.
       let data = json req;
           title = dict_get data ''title'';
           content = dict_get data ''content''
       in
       if \<not> (truthy title \<and> truthy content)
       then (Reply 400 (Message ''Title and content are required!''), s)
       else
         (case post_get s i of
            None \<Rightarrow> (Reply 404 (Message ''Post not found!''), s)
          | Some p \<Rightarrow>
              (case commit e (SetPost i title content) s of
                 Inl x \<Rightarrow> (Reply 500 (MessageError ''Error updating post'' x), s)
               | Inr s' \<Rightarrow>
                   (case post_get s' i of
                      None \<Rightarrow> (Reply 500 (MessageError ''Error updating post''
                                  (StatementError ''post.id'')), s')
                    | Some p' \<Rightarrow>
                        (case view_post s' p' of
                           Inl x \<Rightarrow> (Reply 500 (MessageError ''Error updating post'' x), s')
                         | Inr v \<Rightarrow> (Reply 200 (PostUpdated ''Post updated successfully!'' v), s'))))))"

definition delete_post :: "env \<Rightarrow> int \<Rightarrow> request \<Rightarrow> db \<Rightarrow> reply \<times> db" where
  "delete_post e i req =
     jwt_required e req (\<lambda>current_user_id s.
       case post_get s i of
         None \<Rightarrow> (Reply 404 (Message ''Post not found!''), s)
       | Some p \<Rightarrow>
           (case commit e (DeletePost i) s of
              Inl x \<Rightarrow> (Raise x, s)
            | Inr s' \<Rightarrow> (Reply 200 (Message ''Post deleted successfully!''), s')))"

definition create_comment :: "env \<Rightarrow> request \<Rightarrow> db \<Rightarrow> reply \<times> db" where
  "create_comment e req =
     jwt_required e req (\<lambda>current_user_id s.
       let data = json req in
       case dict_index data ''post_id'' of
         Inl x \<Rightarrow> (Raise x, s)
       | Inr post_id \<Rightarrow>
           (case post_get_value s post_id of
              Inl x \<Rightarrow> (Raise x, s)
            | Inr None \<Rightarrow> (Reply 404 (Message ''Post not found''), s)
            | Inr (Some p) \<Rightarrow>
                (case dict_index data ''content'' of
                   Inl x \<Rightarrow> (Raise x, s)
                 | Inr content \<Rightarrow>
                     (case commit e (AddComment content post_id current_user_id) s of
                        Inl x \<Rightarrow> (Raise x, s)
                      | Inr s' \<Rightarrow> (Reply 201 (Message ''Comment created successfully!''), s')))))"

definition get_single_comment :: "int \<Rightarrow> db \<Rightarrow> reply \<times> db" where
  "get_single_comment i s =
     (case comment_get s i of
        None \<Rightarrow> (Reply 404 (Message ''Comment not found!''), s)
      | Some c \<Rightarrow>
          (case view_comment s c of
             Inl x \<Rightarrow> (Raise x, s)
           | Inr v \<Rightarrow> (Reply 200 (CommentJson v), s)))"

text \<open>
  \<^verbatim>\<open>comment.author_id\<close> is the integer of the \<^verbatim>\<open>Integer\<close> column; \<^verbatim>\<open>current_user_id\<close>
  is the identity of the token, whatever value it was issued for.
\<close>

definition update_comment :: "env \<Rightarrow> int \<Rightarrow> request \<Rightarrow> db \<Rightarrow> reply \<times> db" where
  "update_comment e i req =
     jwt_required e req (\<lambda>current_user_id s.
       let data = json req in
       case comment_get s i of
         None \<Rightarrow> (Reply 404 (Message ''Comment not found!''), s)
       | Some c \<Rightarrow>
           if py_ne (PyInt (c_author_id c)) current_user_id
           then (Reply 403 (Message ''You are not authorized to update this comment!''), s)
           else
             (case commit e (SetComment i (dict_get_default data ''content'' (PyStr (c_content c)))) s of
                Inl x \<Rightarrow> (Raise x, s)
              | Inr s' \<Rightarrow> (Reply 200 (Message ''Comment updated successfully!''), s')))"

definition delete_comment :: "env \<Rightarrow> int \<Rightarrow> request \<Rightarrow> db \<Rightarrow> reply \<times> db" where
  "delete_comment e i req =
     jwt_required e req (\<lambda>current_user_id s.
       case comment_get s i of
         None \<Rightarrow> (Reply 404 (Message ''Comment not found!''), s)
       | Some c \<Rightarrow>
           if py_ne (PyInt (c_author_id c)) current_user_id
           then (Reply 403 (Message ''You are not authorized to delete this comment!''), s)
           else
             (case commit e (DeleteComment i) s of
                Inl x \<Rightarrow> (Raise x, s)
              | Inr s' \<Rightarrow> (Reply 200 (Message ''Comment deleted successfully!''), s')))"

section \<open>The application\<close>

datatype route =
    POST_register
  | POST_login
  | POST_posts
  | GET_post int
  | PUT_post int
  | DELETE_post int
  | POST_comments
  | GET_comment int
  | PUT_comment int
  | DELETE_comment int

fun handle :: "env \<Rightarrow> route \<Rightarrow> request \<Rightarrow> db \<Rightarrow> reply \<times> db" where
  "handle e POST_register req s = register_user e req s"
| "handle e POST_login req s = login_user e req s"
| "handle e POST_posts req s = create_post e req s"
| "handle e (GET_post i) req s = get_post i s"
| "handle e (PUT_post i) req s = update_post e i req s"
| "handle e (DELETE_post i) req s = delete_post e i req s"
| "handle e POST_comments req s = create_comment e req s"
| "handle e (GET_comment i) req s = get_single_comment i s"
| "handle e (PUT_comment i) req s = update_comment e i req s"
| "handle e (DELETE_comment i) req s = delete_comment e i req s"

text \<open>The routes that write: register, and create, update and delete of posts and comments.\<close>

fun mutating :: "route \<Rightarrow> bool" where
  "mutating POST_register = True"
| "mutating POST_login = False"
| "mutating POST_posts = True"
| "mutating (GET_post i) = False"
| "mutating (PUT_post i) = True"
| "mutating (DELETE_post i) = True"
| "mutating POST_comments = True"
| "mutating (GET_comment i) = False"
| "mutating (PUT_comment i) = True"
| "mutating (DELETE_comment i) = True"

text \<open>The identity that \<^verbatim>\<open>jwt_required\<close> hands to the handler, if the token verifies.\<close>

definition identity :: "env \<Rightarrow> request \<Rightarrow> pyval option" where
  "identity e req =
     (case bearer req of
        None \<Rightarrow> None
      | Some t \<Rightarrow> (case verify (secret e) (now e) t of Inl err \<Rightarrow> None | Inr ident \<Rightarrow> Some ident))"

text \<open>
  What a request brings to \<^verbatim>\<open>db.session.commit()\<close>: the pending object of its handler,
  or nothing when the handler answers or raises before it commits.
\<close>

fun pending_write :: "env \<Rightarrow> route \<Rightarrow> request \<Rightarrow> db \<Rightarrow> pending option" where
  "pending_write e POST_register req s =
     (let username = dict_get (json req) ''username'';
          email = dict_get (json req) ''email'';
          password = dict_get (json req) ''password''
      in
      if truthy username \<and> truthy email \<and> truthy password
         \<and> validate_email e email = Inr ()
         \<and> user_by_username s username = Inr None
      then
        (case generate_password_hash e password of
           Inl x \<Rightarrow> None
         | Inr h \<Rightarrow> Some (AddUser username email h))
      else None)"
| "pending_write e POST_login req s = None"
| "pending_write e POST_posts req s =
     (case identity e req of
        None \<Rightarrow> None
      | Some uid \<Rightarrow>
          if truthy (dict_get (json req) ''title'') \<and> truthy (dict_get (json req) ''content'')
          then Some (AddPost (dict_get (json req) ''title'') (dict_get (json req) ''content'') uid)
          else None)"
| "pending_write e (GET_post i) req s = None"
| "pending_write e (PUT_post i) req s =
     (case identity e req of
        None \<Rightarrow> None
      | Some uid \<Rightarrow>
          if truthy (dict_get (json req) ''title'') \<and> truthy (dict_get (json req) ''content'')
             \<and> post_get s i \<noteq> None
          then Some (SetPost i (dict_get (json req) ''title'') (dict_get (json req) ''content''))
          else None)"
| "pending_write e (DELETE_post i) req s =
     (case identity e req of
        None \<Rightarrow> None
      | Some uid \<Rightarrow> if post_get s i \<noteq> None then Some (DeletePost i) else None)"
| "pending_write e POST_comments req s =
     (case identity e req of
        None \<Rightarrow> None
      | Some uid \<Rightarrow>
          (case json req ''post_id'' of
             None \<Rightarrow> None
           | Some post_id \<Rightarrow>
               (case post_get_value s post_id of
                  Inl x \<Rightarrow> None
                | Inr None \<Rightarrow> None
                | Inr (Some p) \<Rightarrow>
                    (case json req ''content'' of
                       None \<Rightarrow> None
                     | Some content \<Rightarrow> Some (AddComment content post_id uid)))))"
| "pending_write e (GET_comment i) req s = None"
| "pending_write e (PUT_comment i) req s =
     (case identity e req of
        None \<Rightarrow> None
      | Some uid \<Rightarrow>
          (case comment_get s i of
             None \<Rightarrow> None
           | Some c \<Rightarrow>
               if py_eq (PyInt (c_author_id c)) uid
               then Some (SetComment i (dict_get_default (json req) ''content'' (PyStr (c_content c))))
               else None))"
| "pending_write e (DELETE_comment i) req s =
     (case identity e req of
        None \<Rightarrow> None
      | Some uid \<Rightarrow>
          (case comment_get s i of
             None \<Rightarrow> None
           | Some c \<Rightarrow> if py_eq (PyInt (c_author_id c)) uid then Some (DeleteComment i) else None))"

section \<open>An example store\<close>

text \<open>
  A store after the scenario of the specification: alice and bob have registered, alice
  has written two posts and commented on the first. The example environment accepts
  every address, hashes a password by putting a method and a salt before it, its store
  can be reached, and its sequence gives 1.
\<close>

definition example_env :: env where
  "example_env =
     \<lparr>now = 1000, secret = ''k'', ttl = 900,
      email_problem = (\<lambda>a. None),
      password_hash = (\<lambda>p. ''plain$salt$'' @ p),
      password_matches = (\<lambda>h p. h = ''plain$salt$'' @ p),
      next_id = 1,
      store_fault = False\<rparr>"

definition example_store :: db where
  "example_store =
     \<lparr>users =
        [\<lparr>u_id = 1, u_username = ''alice'', u_email = ''a@x.com'',
          u_password_hash = ''plain$salt$pw1''\<rparr>,
         \<lparr>u_id = 2, u_username = ''bob'', u_email = ''b@x.com'',
          u_password_hash = ''plain$salt$pw2''\<rparr>],
      posts =
        [\<lparr>p_id = 1, p_title = ''t1'', p_content = ''c1'', p_created_at = 1000,
          p_updated_at = 1000, p_author_id = 1\<rparr>,
         \<lparr>p_id = 2, p_title = ''t2'', p_content = ''c2'', p_created_at = 1000,
          p_updated_at = 1000, p_author_id = 1\<rparr>],
      comments =
        [\<lparr>c_id = 1, c_content = ''nice'', c_created_at = 1000, c_post_id = 1,
          c_author_id = 1\<rparr>]\<rparr>"

text \<open>The token that \<^verbatim>\<open>login_user\<close> issues for the user with the given id.\<close>

definition token_of :: "int \<Rightarrow> token" where
  "token_of uid = create_access_token example_env (PyStr (py_str uid))"

definition example_request :: "(string \<times> pyval) list \<Rightarrow> token option \<Rightarrow> request" where
  "example_request kv t = \<lparr>is_json = True, json = map_of kv, bearer = t\<rparr>"

section \<open>Basic facts\<close>

subsection \<open>Identities as decimal strings\<close>

lemma digit_cases:
  "d < (10::nat) \<Longrightarrow>
   d = 0 \<or> d = 1 \<or> d = 2 \<or> d = 3 \<or> d = 4 \<or> d = 5 \<or> d = 6 \<or> d = 7 \<or> d = 8 \<or> d = 9"
  by arith

lemma digit_val_digit_char: "d < 10 \<Longrightarrow> digit_val (digit_char d) = Some d"
  by (drule digit_cases) (auto simp: digit_val_def digit_char_def)

lemma digit_char_no_sign: "d < 10 \<Longrightarrow> digit_char d \<noteq> CHR ''-'' \<and> digit_char d \<noteq> CHR ''+''"
  by (drule digit_cases) (auto simp: digit_char_def)

lemma digit_char_not_blank: "d < 10 \<Longrightarrow> \<not> is_blank (digit_char d)"
  by (drule digit_cases) (auto simp: digit_char_def is_blank_def)

lemma parse_digits_append:
  "parse_digits acc (xs @ ys) =
     (case parse_digits acc xs of None \<Rightarrow> None | Some m \<Rightarrow> parse_digits m ys)"
  by (induction xs arbitrary: acc) (auto split: option.splits)

lemma parse_digits_str_nat: "parse_digits 0 (str_nat n) = Some n"
proof (induction n rule: str_nat.induct)
  case (1 n)
  show ?case
  proof (cases "n < 10")
    case True
    then show ?thesis
      by (subst str_nat.simps) (simp add: digit_val_digit_char)
  next
    case False
    with 1 have "parse_digits 0 (str_nat (n div 10)) = Some (n div 10)"
      by simp
    with False show ?thesis
      by (subst str_nat.simps) (simp add: parse_digits_append digit_val_digit_char)
  qed
qed

lemma str_nat_head: "\<exists>d ds. d < 10 \<and> str_nat n = digit_char d # ds"
proof (induction n rule: str_nat.induct)
  case (1 n)
  show ?case
  proof (cases "n < 10")
    case True
    then show ?thesis
      by (subst str_nat.simps) auto
  next
    case False
    with 1 obtain d ds where "d < 10" "str_nat (n div 10) = digit_char d # ds"
      by auto
    with False show ?thesis
      by (subst str_nat.simps) auto
  qed
qed

lemma str_nat_last: "\<exists>d ds. d < 10 \<and> str_nat n = ds @ [digit_char d]"
proof (cases "n < 10")
  case True
  then have "str_nat n = [] @ [digit_char n]"
    by (subst str_nat.simps) simp
  with True show ?thesis
    by blast
next
  case False
  then have "str_nat n = str_nat (n div 10) @ [digit_char (n mod 10)]"
    by (subst str_nat.simps) simp
  moreover have "n mod 10 < 10"
    by simp
  ultimately show ?thesis
    by blast
qed

lemma parse_nat_str_nat: "parse_nat (str_nat n) = Some n"
  using str_nat_head [of n] by (auto simp: parse_nat_def parse_digits_str_nat)

lemma strip_unchanged:
  assumes "s \<noteq> []" and "\<not> is_blank (hd s)" and "\<not> is_blank (last s)"
  shows "strip s = s"
proof -
  have a: "dropWhile is_blank s = s"
    using assms(1,2) by (cases s) auto
  have "dropWhile is_blank (rev s) = rev s"
    using assms(1,3) by (cases s rule: rev_cases) auto
  with a show ?thesis
    by (simp add: strip_def)
qed

lemma strip_signed_str_nat:
  "strip (str_nat n) = str_nat n" "strip (CHR ''-'' # str_nat n) = CHR ''-'' # str_nat n"
proof -
  obtain d ds where h: "d < 10" "str_nat n = digit_char d # ds"
    using str_nat_head by blast
  obtain d' ds' where l: "d' < 10" "str_nat n = ds' @ [digit_char d']"
    using str_nat_last by blast
  have a: "hd (str_nat n) = digit_char d" "str_nat n \<noteq> []"
    by (simp_all add: h(2))
  have b: "last (str_nat n) = digit_char d'"
    by (simp add: l(2))
  show "strip (str_nat n) = str_nat n"
    using h(1) l(1) by (simp add: strip_unchanged a b digit_char_not_blank)
  have c: "\<not> is_blank (last (CHR ''-'' # str_nat n))"
    using l(1) by (simp add: a(2) b digit_char_not_blank)
  have "\<not> is_blank (hd (CHR ''-'' # str_nat n))"
    by (simp add: is_blank_def)
  with c show "strip (CHR ''-'' # str_nat n) = CHR ''-'' # str_nat n"
    by (intro strip_unchanged) simp_all
qed

lemma strip_py_str: "strip (py_str i) = py_str i"
  by (simp add: py_str_def strip_signed_str_nat)

text \<open>The store reads the string of an id back as that id.\<close>

lemma pg_int_py_str: "pg_int (py_str i) = Some i"
proof (cases "i < 0")
  case True
  then show ?thesis
    by (simp add: pg_int_def strip_py_str) (simp add: py_str_def parse_nat_str_nat)
next
  case False
  obtain d ds where d: "d < 10" "str_nat (nat i) = digit_char d # ds"
    using str_nat_head by blast
  have "parse_nat (digit_char d # ds) = Some (nat i)"
    using parse_nat_str_nat [of "nat i"] d by simp
  with False d show ?thesis
    by (simp add: pg_int_def strip_py_str) (simp add: py_str_def digit_char_no_sign)
qed

lemma pg_int4_py_str: "in_int4 i \<Longrightarrow> pg_int4 (py_str i) = Some i"
  by (simp add: pg_int4_def pg_int_py_str)

lemma py_str_1: "py_str 1 = ''1''"
  by (simp add: py_str_def str_nat.simps digit_char_def)

lemma py_str_2: "py_str 2 = ''2''"
  by (simp add: py_str_def str_nat.simps digit_char_def)

lemma as_int_py_str: "in_int4 i \<Longrightarrow> as_int col (PyStr (py_str i)) = Inr i"
  by (simp add: as_int_def pg_int4_py_str)

lemma varchar_short: "length t \<le> n \<Longrightarrow> varchar n t = Some t"
  by (simp add: varchar_def)

lemma as_varchar_short: "length t \<le> n \<Longrightarrow> as_varchar n col (PyStr t) = Inr t"
  by (simp add: as_varchar_def as_text_def sbind_def varchar_short)

subsection \<open>Tokens and the guard\<close>

lemma verify_issue:
  "clock \<le> issued + life \<Longrightarrow> verify key clock (issue key issued life ident) = Inr ident"
  by (simp add: verify_def issue_def)

lemma jwt_required_authenticated:
  "bearer req = Some t \<Longrightarrow> verify (secret e) (now e) t = Inr ident \<Longrightarrow>
   jwt_required e req handler s = handler ident s"
  by (simp add: jwt_required_def)

lemma jwt_required_identity:
  "jwt_required e req handler s =
     (case identity e req of
        None \<Rightarrow> (fst (jwt_required e req handler s), s)
      | Some ident \<Rightarrow> handler ident s)"
  by (simp add: jwt_required_def identity_def split: option.splits sum.splits)

subsection \<open>The store\<close>

lemma commit_store_fault: "store_fault e \<Longrightarrow> commit e w s = Inl (CommitError StoreFault)"
  by (simp add: commit_def)

lemma find_map_same_id:
  assumes "\<And>p. p_id (f p) = p_id p"
  shows "find (\<lambda>p. p_id p = i) (map (\<lambda>p. if p_id p = i then f p else p) ps)
       = map_option f (find (\<lambda>p. p_id p = i) ps)"
  using assms by (induction ps) auto

lemma find_filter_other:
  "find (\<lambda>p. p_id p = i) (filter (\<lambda>p. p_id p \<noteq> i) ps) = None"
  by (induction ps) auto

lemma author_username_known:
  "a \<in> set (map u_id (users s)) \<Longrightarrow> \<exists>n. author_username s a = Inr n"
  by (cases "find (\<lambda>u. u_id u = a) (users s)") (auto simp: author_username_def find_None_iff)

subsection \<open>The example\<close>

lemma example_env_simps:
  "now example_env = 1000" "secret example_env = ''k''" "ttl example_env = 900"
  "store_fault example_env = False" "next_id example_env = 1"
  "email_problem example_env a = None"
  "password_hash example_env p = ''plain$salt$'' @ p"
  "password_matches example_env h p = (h = ''plain$salt$'' @ p)"
  by (simp_all add: example_env_def)

lemma example_request_simps:
  "is_json (example_request kv t)" "json (example_request kv t) = map_of kv"
  "bearer (example_request kv t) = t"
  by (simp_all add: example_request_def)

lemma verify_token_of:
  "verify (secret example_env) (now example_env) (token_of uid) = Inr (PyStr (py_str uid))"
  by (simp add: verify_def token_of_def create_access_token_def issue_def example_env_def)

lemma jwt_required_token_of:
  "jwt_required example_env (example_request kv (Some (token_of uid))) handler s
     = handler (PyStr (py_str uid)) s"
  by (simp add: jwt_required_authenticated [OF _ verify_token_of] example_request_simps)

lemma example_login_alice:
  "login_user example_env
     (example_request [(''username'', PyStr ''alice''), (''password'', PyStr ''pw1'')] None)
     example_store = (Reply 200 (AccessToken (token_of 1)), example_store)"
  by (simp add: login_user_def example_request_simps example_env_simps example_store_def
      dict_has_def dict_get_def user_by_username_def check_password_hash_def token_of_def)

lemma example_comment_1:
  "comment_get example_store 1 =
     Some \<lparr>c_id = 1, c_content = ''nice'', c_created_at = 1000, c_post_id = 1, c_author_id = 1\<rparr>"
  by (simp add: comment_get_def example_store_def)

lemma example_create_comment:
  "create_comment example_env
     (example_request [(''post_id'', PyInt 1), (''content'', PyStr ''nice'')] (Some (token_of 1)))
     (example_store\<lparr>comments := []\<rparr>)
     = (Reply 201 (Message ''Comment created successfully!''), example_store)"
  by (simp add: create_comment_def jwt_required_token_of example_request_simps dict_index_def
      post_get_value_def post_get_def commit_def example_env_simps as_text_def as_int_def
      pg_int4_py_str in_int4_def sbind_def example_store_def)

section \<open>Registration\<close>













section \<open>Login and tokens\<close>

text \<open>
  C2. A login with the username of a stored user and a password that verifies against
  the stored hash is answered 200 with a token issued for that user's id, written as
  \<^verbatim>\<open>str(user.id)\<close>. Verified before its expiry, the token yields that identity back, and
  the identity reads back as the id. The same holds of a token issued for any identity:
  verifying it yields the identity it was issued for.
\<close>

theorem login_token_round_trip:
  assumes "is_json req"
    and "json req ''username'' = Some (PyStr n)" and "json req ''password'' = Some pw"
    and "find (\<lambda>u. u_username u = n) (users s) = Some u"
    and "check_password_hash e (u_password_hash u) pw = Inr True"
    and "clock < now e + ttl e"
  shows "login_user e req s =
           (Reply 200 (AccessToken (issue (secret e) (now e) (ttl e) (PyStr (py_str (u_id u))))), s)
       \<and> verify (secret e) clock (issue (secret e) (now e) (ttl e) (PyStr (py_str (u_id u))))
           = Inr (PyStr (py_str (u_id u)))
       \<and> pg_int (py_str (u_id u)) = Some (u_id u)
       \<and> verify (secret e) clock (issue (secret e) (now e) (ttl e) ident) = Inr ident"
  using assms
  by (simp add: login_user_def dict_has_def dict_get_def user_by_username_def
      create_access_token_def verify_issue pg_int_py_str)

theorem login_token_round_trip_witness:
  "login_user example_env
     (example_request [(''username'', PyStr ''alice''), (''password'', PyStr ''pw1'')] None)
     example_store
     = (Reply 200 (AccessToken (issue ''k'' 1000 900 (PyStr ''1''))), example_store)
   \<and> verify ''k'' 1500 (issue ''k'' 1000 900 (PyStr ''1'')) = Inr (PyStr ''1'')
   \<and> pg_int ''1'' = Some 1
   \<and> verify ''k'' 1500 (issue ''k'' 1000 900 (PyStr ''bob'')) = Inr (PyStr ''bob'')"
proof -
  let ?req = "example_request [(''username'', PyStr ''alice''), (''password'', PyStr ''pw1'')] None"
  let ?u = "\<lparr>u_id = 1, u_username = ''alice'', u_email = ''a@x.com'',
             u_password_hash = ''plain$salt$pw1''\<rparr>"
  have a: "is_json ?req" "json ?req ''username'' = Some (PyStr ''alice'')"
    "json ?req ''password'' = Some (PyStr ''pw1'')"
    by (simp_all add: example_request_simps)
  have b: "find (\<lambda>u. u_username u = ''alice'') (users example_store) = Some ?u"
    by (simp add: example_store_def)
  have c: "check_password_hash example_env (u_password_hash ?u) (PyStr ''pw1'') = Inr True"
    by (simp add: check_password_hash_def example_env_simps)
  have d: "1500 < now example_env + ttl example_env"
    by (simp add: example_env_simps)
  show ?thesis
    using login_token_round_trip [OF a b c d, of "PyStr ''bob''"]
    by (simp add: example_env_simps py_str_1)
qed

text \<open>
  C7, at a password that is not a string. Two logins with both fields present and the
  password 5: carol is no stored user and the answer is 401; alice is a stored user,
  \<^verbatim>\<open>check_password_hash\<close> raises on the number, nothing catches the exception and the
  answer is the framework's 500. The two responses differ, where the claim has them
  identical.
\<close>

theorem login_password_type_reveals_user:
  "login_user example_env
     (example_request [(''username'', PyStr ''carol''), (''password'', PyInt 5)] None)
     example_store = (Reply 401 (Message ''Invalid credentials''), example_store)
   \<and> login_user example_env
     (example_request [(''username'', PyStr ''alice''), (''password'', PyInt 5)] None)
     example_store = (Raise (AttributeError ''encode''), example_store)
   \<and> flask (Reply 401 (Message ''Invalid credentials'')) = (401, Message ''Invalid credentials'')
   \<and> flask (Raise (AttributeError ''encode'')) = (500, ServerError)"
  by (simp add: login_user_def example_request_simps dict_has_def dict_get_def
      user_by_username_def check_password_hash_def example_store_def flask_def)

text \<open>
  Where \<^verbatim>\<open>check_password_hash\<close> returns \<^verbatim>\<open>False\<close>, as it does for every string that is
  not the password, the login of a stored user is answered like the login of an unknown
  one: 401 with the same body.
\<close>

theorem login_failures_alike_when_check_returns:
  assumes "is_json req1" and "is_json req2"
    and "json req1 ''username'' = Some (PyStr n1)" and "json req1 ''password'' = Some pw1"
    and "json req2 ''username'' = Some (PyStr n2)" and "json req2 ''password'' = Some pw2"
    and "find (\<lambda>u. u_username u = n1) (users s) = None"
    and "find (\<lambda>u. u_username u = n2) (users s) = Some u"
    and "check_password_hash e (u_password_hash u) pw2 = Inr False"
  shows "flask (fst (login_user e req1 s)) = flask (fst (login_user e req2 s))
       \<and> flask (fst (login_user e req1 s)) = (401, Message ''Invalid credentials'')"
  using assms
  by (simp add: login_user_def dict_has_def dict_get_def user_by_username_def flask_def)

theorem login_failures_alike_when_check_returns_witness:
  "flask (fst (login_user example_env
      (example_request [(''username'', PyStr ''carol''), (''password'', PyStr ''pw1'')] None)
      example_store))
   = flask (fst (login_user example_env
      (example_request [(''username'', PyStr ''alice''), (''password'', PyStr ''wrong'')] None)
      example_store))
   \<and> flask (fst (login_user example_env
      (example_request [(''username'', PyStr ''carol''), (''password'', PyStr ''pw1'')] None)
      example_store)) = (401, Message ''Invalid credentials'')"
proof -
  let ?r1 = "example_request [(''username'', PyStr ''carol''), (''password'', PyStr ''pw1'')] None"
  let ?r2 = "example_request [(''username'', PyStr ''alice''), (''password'', PyStr ''wrong'')] None"
  let ?u = "\<lparr>u_id = 1, u_username = ''alice'', u_email = ''a@x.com'',
             u_password_hash = ''plain$salt$pw1''\<rparr>"
  have a: "is_json ?r1" "is_json ?r2"
    by (simp_all add: example_request_simps)
  have b: "json ?r1 ''username'' = Some (PyStr ''carol'')" "json ?r1 ''password'' = Some (PyStr ''pw1'')"
    "json ?r2 ''username'' = Some (PyStr ''alice'')" "json ?r2 ''password'' = Some (PyStr ''wrong'')"
    by (simp_all add: example_request_simps)
  have c: "find (\<lambda>u. u_username u = ''carol'') (users example_store) = None"
    "find (\<lambda>u. u_username u = ''alice'') (users example_store) = Some ?u"
    by (simp_all add: example_store_def)
  have d: "check_password_hash example_env (u_password_hash ?u) (PyStr ''wrong'') = Inr False"
    by (simp add: check_password_hash_def example_env_simps)
  show ?thesis
    by (rule login_failures_alike_when_check_returns [OF a b c d])
qed

section \<open>Posts\<close>

text \<open>
  C3, at a post that has a comment. Bob, authenticated, deletes alice's first post, on
  which she has commented. \<^verbatim>\<open>delete_post\<close> finds the post and commits the deletion; the
  store refuses it, nothing catches the exception, the answer is the framework's 500 and
  the post is still stored, where the claim has 200 and the post removed.
\<close>

theorem delete_commented_post_uncaught:
  "verify (secret example_env) (now example_env) (token_of 2) = Inr (PyStr ''2'')
   \<and> post_get example_store 1 =
       Some \<lparr>p_id = 1, p_title = ''t1'', p_content = ''c1'', p_created_at = 1000,
             p_updated_at = 1000, p_author_id = 1\<rparr>
   \<and> delete_post example_env 1 (example_request [] (Some (token_of 2))) example_store
       = (Raise (CommitError (NotNull ''comment.post_id'')), example_store)
   \<and> status (fst (delete_post example_env 1 (example_request [] (Some (token_of 2)))
        example_store)) = 500"
proof -
  have p: "post_get example_store 1 =
       Some \<lparr>p_id = 1, p_title = ''t1'', p_content = ''c1'', p_created_at = 1000,
             p_updated_at = 1000, p_author_id = 1\<rparr>"
    by (simp add: post_get_def example_store_def)
  have c: "commit example_env (DeletePost 1) example_store
        = Inl (CommitError (NotNull ''comment.post_id''))"
    by (simp add: commit_def example_env_simps example_store_def)
  have "delete_post example_env 1 (example_request [] (Some (token_of 2))) example_store
       = (Raise (CommitError (NotNull ''comment.post_id'')), example_store)"
    by (simp add: delete_post_def jwt_required_token_of p c)
  with p show ?thesis
    by (simp add: verify_token_of py_str_2 status_def flask_def)
qed

text \<open>
  Neither \<^verbatim>\<open>update_post\<close> nor \<^verbatim>\<open>delete_post\<close> looks at the identity: two requests that
  differ only in their token, both tokens valid, are answered alike and leave the same
  store.
\<close>

theorem post_handlers_ignore_identity:
  assumes "verify (secret e) (now e) t1 = Inr a" and "verify (secret e) (now e) t2 = Inr b"
  shows "update_post e i (req\<lparr>bearer := Some t1\<rparr>) s = update_post e i (req\<lparr>bearer := Some t2\<rparr>) s
       \<and> delete_post e i (req\<lparr>bearer := Some t1\<rparr>) s = delete_post e i (req\<lparr>bearer := Some t2\<rparr>) s"
  using assms
  by (simp add: update_post_def delete_post_def jwt_required_def)

theorem post_handlers_ignore_identity_witness:
  "update_post example_env 2
     (example_request [(''title'', PyStr ''new''), (''content'', PyStr ''text'')] None
        \<lparr>bearer := Some (token_of 1)\<rparr>) example_store
   = update_post example_env 2
     (example_request [(''title'', PyStr ''new''), (''content'', PyStr ''text'')] None
        \<lparr>bearer := Some (token_of 2)\<rparr>) example_store
   \<and> delete_post example_env 2
     (example_request [(''title'', PyStr ''new''), (''content'', PyStr ''text'')] None
        \<lparr>bearer := Some (token_of 1)\<rparr>) example_store
   = delete_post example_env 2
     (example_request [(''title'', PyStr ''new''), (''content'', PyStr ''text'')] None
        \<lparr>bearer := Some (token_of 2)\<rparr>) example_store"
  by (rule post_handlers_ignore_identity [OF verify_token_of verify_token_of])

text \<open>
  With a valid token of any identity, and a store that can be reached: PUT /posts/{id}
  with a title of at most 100 characters and a content, both non-empty strings, on a
  stored post whose author is a stored user is answered 200 and the post has the new title
  and content; DELETE /posts/{id} on a stored post that no comment refers to is answered
  200 and removes the post.
\<close>

lemma update_post_applies:
  assumes "bearer req = Some t" and "verify (secret e) (now e) t = Inr ident"
    and "\<not> store_fault e" and "post_get s i = Some p"
    and "json req ''title'' = Some (PyStr ti)" and "ti \<noteq> []" and "length ti \<le> 100"
    and "json req ''content'' = Some (PyStr co)" and "co \<noteq> []"
    and "p_author_id p \<in> set (map u_id (users s))"
  shows "status (fst (update_post e i req s)) = 200
       \<and> (\<exists>p'. post_get (snd (update_post e i req s)) i = Some p'
              \<and> p_title p' = ti \<and> p_content p' = co)"
proof -
  let ?f = "\<lambda>p. if p_title p = ti \<and> p_content p = co then p
                  else p\<lparr>p_title := ti, p_content := co, p_updated_at := now e\<rparr>"
  let ?s' = "s\<lparr>posts := map (\<lambda>p. if p_id p = i then ?f p else p) (posts s)\<rparr>"
  have c: "commit e (SetPost i (PyStr ti) (PyStr co)) s = Inr ?s'"
    using assms(3,7) by (simp add: commit_def as_varchar_short as_text_def sbind_def)
  have g: "post_get ?s' i = Some (?f p)"
    using assms(4) by (simp add: post_get_def find_map_same_id)
  obtain a where a: "author_username s (p_author_id p) = Inr a"
    using author_username_known [OF assms(10)] by blast
  have "\<exists>v. view_post ?s' (?f p) = Inr v"
    using a by (simp add: view_post_def sbind_def author_username_def)
  then obtain v where v: "view_post ?s' (?f p) = Inr v" ..
  have "update_post e i req s = (Reply 200 (PostUpdated ''Post updated successfully!'' v), ?s')"
    using assms(1,2,4,5,6,8,9) c g v
    by (simp add: update_post_def jwt_required_authenticated Let_def dict_get_def
        del: flush.simps)
  with g show ?thesis
    by (auto simp: status_def flask_def)
qed

lemma delete_post_applies:
  assumes "bearer req = Some t" and "verify (secret e) (now e) t = Inr ident"
    and "\<not> store_fault e" and "post_get s i = Some p"
    and "\<not> (\<exists>c \<in> set (comments s). c_post_id c = i)"
  shows "status (fst (delete_post e i req s)) = 200
       \<and> post_get (snd (delete_post e i req s)) i = None"
  using assms
  by (simp add: delete_post_def jwt_required_authenticated commit_def status_def flask_def
      post_get_def find_filter_other)

text \<open>
  C8. Deleting a post does not delete its comments: whatever DELETE /posts/{id} answers,
  the comments table is the one the store had before, so every comment whose
  \<^verbatim>\<open>post_id\<close> is the id is still present and unchanged.
\<close>

theorem delete_post_keeps_comments:
  "comments (snd (delete_post e i req s)) = comments s"
  by (auto simp: delete_post_def jwt_required_def commit_def
      split: option.splits sum.splits if_splits)

section \<open>Comments\<close>

text \<open>
  The ownership test of \<^verbatim>\<open>update_comment\<close> and \<^verbatim>\<open>delete_comment\<close> compares the integer
  \<^verbatim>\<open>comment.author_id\<close> with the identity of the token. \<^verbatim>\<open>login_user\<close> issues every token
  for \<^verbatim>\<open>str(user.id)\<close>, a string, and an integer differs from every string: with a token
  of \<^verbatim>\<open>login_user\<close> both handlers answer 403 for every stored comment.
\<close>

lemma ownership_check_string_identity: "py_ne (PyInt a) (PyStr x)"
  by (simp add: py_ne_def)

lemma update_comment_string_identity:
  assumes "bearer req = Some t" and "verify (secret e) (now e) t = Inr (PyStr x)"
    and "comment_get s i = Some c"
  shows "update_comment e i req s =
     (Reply 403 (Message ''You are not authorized to update this comment!''), s)"
  using assms
  by (simp add: update_comment_def jwt_required_authenticated ownership_check_string_identity)

lemma delete_comment_string_identity:
  assumes "bearer req = Some t" and "verify (secret e) (now e) t = Inr (PyStr x)"
    and "comment_get s i = Some c"
  shows "delete_comment e i req s =
     (Reply 403 (Message ''You are not authorized to delete this comment!''), s)"
  using assms
  by (simp add: delete_comment_def jwt_required_authenticated ownership_check_string_identity)

lemma example_update_comment:
  "update_comment example_env 1 (example_request kv (Some (token_of uid))) example_store
     = (Reply 403 (Message ''You are not authorized to update this comment!''), example_store)"
  by (rule update_comment_string_identity [OF _ verify_token_of example_comment_1])
    (simp add: example_request_simps)

lemma example_delete_comment:
  "delete_comment example_env 1 (example_request kv (Some (token_of uid))) example_store
     = (Reply 403 (Message ''You are not authorized to delete this comment!''), example_store)"
  by (rule delete_comment_string_identity [OF _ verify_token_of example_comment_1])
    (simp add: example_request_simps)

text \<open>
  For every stored comment and every user id, the token that \<^verbatim>\<open>login_user\<close> issues for
  the id fails the ownership test.
\<close>

theorem login_token_never_owns_comment:
  "py_ne (PyInt (c_author_id c)) (t_sub (create_access_token e (PyStr (py_str uid))))"
  by (simp add: create_access_token_def issue_def py_ne_def)

text \<open>
  C1, at the author's own request. Alice logs in and gets her token; with it she has
  written comment 1, whose \<^verbatim>\<open>author_id\<close> is her id. Her PUT /comments/1 and her
  DELETE /comments/1 with the same token are answered 403 and the comment is left as it
  was, where the claim has 200 for the author.
\<close>

theorem comment_author_forbidden:
  "login_user example_env
     (example_request [(''username'', PyStr ''alice''), (''password'', PyStr ''pw1'')] None)
     example_store = (Reply 200 (AccessToken (token_of 1)), example_store)
   \<and> create_comment example_env
     (example_request [(''post_id'', PyInt 1), (''content'', PyStr ''nice'')] (Some (token_of 1)))
     (example_store\<lparr>comments := []\<rparr>)
     = (Reply 201 (Message ''Comment created successfully!''), example_store)
   \<and> comment_get example_store 1 =
     Some \<lparr>c_id = 1, c_content = ''nice'', c_created_at = 1000, c_post_id = 1, c_author_id = 1\<rparr>
   \<and> update_comment example_env 1
     (example_request [(''content'', PyStr ''nicer'')] (Some (token_of 1))) example_store
     = (Reply 403 (Message ''You are not authorized to update this comment!''), example_store)
   \<and> delete_comment example_env 1 (example_request [] (Some (token_of 1))) example_store
     = (Reply 403 (Message ''You are not authorized to delete this comment!''), example_store)"
  by (simp only: example_login_alice example_create_comment example_comment_1
      example_update_comment example_delete_comment simp_thms)

text \<open>
  C9, at the author's own request. Alice's PUT /comments/1 with her token and a body
  without a \<^verbatim>\<open>content\<close> key is answered 403, where the claim has 200; the comment is
  left as it was.
\<close>

theorem comment_update_without_content_forbidden:
  "verify (secret example_env) (now example_env) (token_of 1) = Inr (PyStr ''1'')
   \<and> json (example_request [] (Some (token_of 1))) ''content'' = None
   \<and> comment_get example_store 1 =
     Some \<lparr>c_id = 1, c_content = ''nice'', c_created_at = 1000, c_post_id = 1, c_author_id = 1\<rparr>
   \<and> update_comment example_env 1 (example_request [] (Some (token_of 1))) example_store
        = (Reply 403 (Message ''You are not authorized to update this comment!''), example_store)"
  by (simp add: verify_token_of py_str_1 example_request_simps example_update_comment
      example_comment_1)

text \<open>
  C10. An authenticated POST /comments whose body has no \<^verbatim>\<open>post_id\<close> key raises
  \<^verbatim>\<open>KeyError\<close> at \<^verbatim>\<open>data["post_id"]\<close>, before the post is looked up: whatever the store
  holds, the exception leaves the handler, the caller gets the framework's 500 and not
  201 or 404, and no comment is created.
\<close>

theorem create_comment_missing_post_id:
  assumes "bearer req = Some t" and "verify (secret e) (now e) t = Inr ident"
    and "json req ''post_id'' = None"
  shows "create_comment e req s = (Raise (KeyError ''post_id''), s)
       \<and> status (fst (create_comment e req s)) = 500"
  using assms
  by (simp add: create_comment_def jwt_required_authenticated dict_index_def status_def flask_def)

theorem create_comment_missing_post_id_witness:
  "create_comment example_env (example_request [(''content'', PyStr ''nice'')] (Some (token_of 1)))
     example_store = (Raise (KeyError ''post_id''), example_store)
   \<and> status (fst (create_comment example_env
        (example_request [(''content'', PyStr ''nice'')] (Some (token_of 1))) example_store)) = 500"
proof -
  let ?req = "example_request [(''content'', PyStr ''nice'')] (Some (token_of 1))"
  have a: "bearer ?req = Some (token_of 1)" "json ?req ''post_id'' = None"
    by (simp_all add: example_request_simps)
  show ?thesis
    by (rule create_comment_missing_post_id [OF a(1) verify_token_of a(2)])
qed

section \<open>Failed commits\<close>

text \<open>
  Each of the seven handlers that write, from its commit on: what it answers when the
  commit raises and when it returns, and that it leaves the store alone when it does not
  come to commit.
\<close>

lemma jwt_required_verified:
  "identity e req = Some u \<Longrightarrow> jwt_required e req handler s = handler u s"
  by (simp add: jwt_required_def identity_def split: option.splits sum.splits)

lemma jwt_required_rejected:
  "identity e req = None \<Longrightarrow> snd (jwt_required e req handler s) = s"
  by (simp add: jwt_required_def identity_def split: option.splits sum.splits)

lemma register_user_commits:
  assumes "pending_write e POST_register req s = Some w"
  shows "register_user e req s =
     (case commit e w s of
        Inl x \<Rightarrow> (Reply 500 (MessageError ''Internal Server Error'' x), s)
      | Inr s' \<Rightarrow> (Reply 201 (Message ''User created successfully!''), s'))"
  using assms
  by (auto simp: register_user_def Let_def split: if_splits sum.splits)

lemma register_user_no_commit:
  "pending_write e POST_register req s = None \<Longrightarrow> snd (register_user e req s) = s"
  by (auto simp: register_user_def Let_def split: if_splits sum.splits option.splits exn.splits)

lemma create_post_commits:
  assumes "pending_write e POST_posts req s = Some w"
  shows "create_post e req s =
     (case commit e w s of
        Inl x \<Rightarrow> (Reply 500 (MessageError ''Error creating post'' x), s)
      | Inr s' \<Rightarrow> (Reply 201 (Message ''Post created successfully!''), s'))"
  using assms
  by (auto simp: create_post_def jwt_required_verified jwt_required_rejected Let_def
      split: option.splits if_splits)

lemma create_post_no_commit:
  "pending_write e POST_posts req s = None \<Longrightarrow> snd (create_post e req s) = s"
  by (auto simp: create_post_def jwt_required_verified jwt_required_rejected Let_def
      split: option.splits if_splits)

lemma update_post_commits:
  assumes "pending_write e (PUT_post i) req s = Some w"
  shows "(case commit e w s of
            Inl x \<Rightarrow>
              update_post e i req s = (Reply 500 (MessageError ''Error updating post'' x), s)
          | Inr s' \<Rightarrow> snd (update_post e i req s) = s')"
  using assms
  by (auto simp: update_post_def jwt_required_verified jwt_required_rejected Let_def
      split: option.splits if_splits sum.splits)

lemma update_post_no_commit:
  "pending_write e (PUT_post i) req s = None \<Longrightarrow> snd (update_post e i req s) = s"
  by (auto simp: update_post_def jwt_required_verified jwt_required_rejected Let_def
      split: option.splits if_splits)

lemma delete_post_commits:
  assumes "pending_write e (DELETE_post i) req s = Some w"
  shows "delete_post e i req s =
     (case commit e w s of
        Inl x \<Rightarrow> (Raise x, s)
      | Inr s' \<Rightarrow> (Reply 200 (Message ''Post deleted successfully!''), s'))"
  using assms
  by (auto simp: delete_post_def jwt_required_verified jwt_required_rejected
      split: option.splits if_splits)

lemma delete_post_no_commit:
  "pending_write e (DELETE_post i) req s = None \<Longrightarrow> snd (delete_post e i req s) = s"
  by (auto simp: delete_post_def jwt_required_verified jwt_required_rejected
      split: option.splits if_splits)

lemma create_comment_commits:
  assumes "pending_write e POST_comments req s = Some w"
  shows "create_comment e req s =
     (case commit e w s of
        Inl x \<Rightarrow> (Raise x, s)
      | Inr s' \<Rightarrow> (Reply 201 (Message ''Comment created successfully!''), s'))"
  using assms
  by (auto simp: create_comment_def jwt_required_verified jwt_required_rejected Let_def dict_index_def
      split: option.splits if_splits sum.splits)

lemma create_comment_no_commit:
  "pending_write e POST_comments req s = None \<Longrightarrow> snd (create_comment e req s) = s"
  by (auto simp: create_comment_def jwt_required_verified jwt_required_rejected Let_def dict_index_def
      split: option.splits if_splits sum.splits)

lemma update_comment_commits:
  assumes "pending_write e (PUT_comment i) req s = Some w"
  shows "update_comment e i req s =
     (case commit e w s of
        Inl x \<Rightarrow> (Raise x, s)
      | Inr s' \<Rightarrow> (Reply 200 (Message ''Comment updated successfully!''), s'))"
  using assms
  by (auto simp: update_comment_def jwt_required_verified jwt_required_rejected Let_def py_ne_def
      split: option.splits if_splits)

lemma update_comment_no_commit:
  "pending_write e (PUT_comment i) req s = None \<Longrightarrow> snd (update_comment e i req s) = s"
  by (auto simp: update_comment_def jwt_required_verified jwt_required_rejected Let_def py_ne_def
      split: option.splits if_splits)

lemma delete_comment_commits:
  assumes "pending_write e (DELETE_comment i) req s = Some w"
  shows "delete_comment e i req s =
     (case commit e w s of
        Inl x \<Rightarrow> (Raise x, s)
      | Inr s' \<Rightarrow> (Reply 200 (Message ''Comment deleted successfully!''), s'))"
  using assms
  by (auto simp: delete_comment_def jwt_required_verified jwt_required_rejected py_ne_def
      split: option.splits if_splits)

lemma delete_comment_no_commit:
  "pending_write e (DELETE_comment i) req s = None \<Longrightarrow> snd (delete_comment e i req s) = s"
  by (auto simp: delete_comment_def jwt_required_verified jwt_required_rejected py_ne_def
      split: option.splits if_splits)

lemma handle_failed_commit:
  assumes "mutating r" and "pending_write e r req s = Some w" and "commit e w s = Inl x"
  shows "status (fst (handle e r req s)) = 500 \<and> snd (handle e r req s) = s"
proof (cases r)
  case POST_register
  with assms show ?thesis
    by (simp add: register_user_commits status_def flask_def)
next
  case POST_posts
  with assms show ?thesis
    by (simp add: create_post_commits status_def flask_def)
next
  case (PUT_post i)
  with assms update_post_commits [of e i req s w] show ?thesis
    by (simp add: status_def flask_def)
next
  case (DELETE_post i)
  with assms show ?thesis
    by (simp add: delete_post_commits status_def flask_def)
next
  case POST_comments
  with assms show ?thesis
    by (simp add: create_comment_commits status_def flask_def)
next
  case (PUT_comment i)
  with assms show ?thesis
    by (simp add: update_comment_commits status_def flask_def)
next
  case (DELETE_comment i)
  with assms show ?thesis
    by (simp add: delete_comment_commits status_def flask_def)
qed (use assms in simp_all)

lemma handle_committed:
  assumes "mutating r" and "pending_write e r req s = Some w" and "commit e w s = Inr s'"
  shows "snd (handle e r req s) = s'"
proof (cases r)
  case POST_register
  with assms show ?thesis
    by (simp add: register_user_commits)
next
  case POST_posts
  with assms show ?thesis
    by (simp add: create_post_commits)
next
  case (PUT_post i)
  with assms update_post_commits [of e i req s w] show ?thesis
    by simp
next
  case (DELETE_post i)
  with assms show ?thesis
    by (simp add: delete_post_commits)
next
  case POST_comments
  with assms show ?thesis
    by (simp add: create_comment_commits)
next
  case (PUT_comment i)
  with assms show ?thesis
    by (simp add: update_comment_commits)
next
  case (DELETE_comment i)
  with assms show ?thesis
    by (simp add: delete_comment_commits)
qed (use assms in simp_all)

lemma handle_no_commit:
  assumes "mutating r" and "pending_write e r req s = None"
  shows "snd (handle e r req s) = s"
  using assms
  by (cases r)
    (simp_all add: register_user_no_commit create_post_no_commit update_post_no_commit
      delete_post_no_commit create_comment_no_commit update_comment_no_commit
      delete_comment_no_commit del: pending_write.simps)

text \<open>
  C6. For register and for create, update and delete of posts and comments: when the
  commit of the request fails, whether the store cannot be reached or refuses the row,
  the caller gets a 500 (the handler's own where it catches the exception, the
  framework's where it does not) and the store is the one before the request. The store
  changes only by a commit that succeeds: then it is the store that commit returned, and
  a request that does not come to commit leaves the store as it was.
\<close>

theorem failed_commit_is_server_error:
  assumes "mutating r"
  shows "(pending_write e r req s = Some w \<and> commit e w s = Inl x \<longrightarrow>
            status (fst (handle e r req s)) = 500 \<and> snd (handle e r req s) = s)
       \<and> (pending_write e r req s = Some w \<and> commit e w s = Inr s' \<longrightarrow>
            snd (handle e r req s) = s')
       \<and> (pending_write e r req s = None \<longrightarrow> snd (handle e r req s) = s)"
  using handle_failed_commit [OF assms] handle_committed [OF assms] handle_no_commit [OF assms]
  by blast

theorem failed_commit_is_server_error_witness:
  "pending_write (example_env\<lparr>store_fault := True\<rparr>) POST_posts
      (example_request [(''title'', PyStr ''t3''), (''content'', PyStr ''c3'')]
         (Some (token_of 1))) example_store
     = Some (AddPost (PyStr ''t3'') (PyStr ''c3'') (PyStr ''1''))
   \<and> commit (example_env\<lparr>store_fault := True\<rparr>)
        (AddPost (PyStr ''t3'') (PyStr ''c3'') (PyStr ''1'')) example_store
     = Inl (CommitError StoreFault)
   \<and> status (fst (handle (example_env\<lparr>store_fault := True\<rparr>) POST_posts
      (example_request [(''title'', PyStr ''t3''), (''content'', PyStr ''c3'')]
         (Some (token_of 1))) example_store)) = 500
   \<and> snd (handle (example_env\<lparr>store_fault := True\<rparr>) POST_posts
      (example_request [(''title'', PyStr ''t3''), (''content'', PyStr ''c3'')]
         (Some (token_of 1))) example_store) = example_store
   \<and> pending_write example_env (DELETE_post 1) (example_request [] (Some (token_of 2)))
        example_store = Some (DeletePost 1)
   \<and> commit example_env (DeletePost 1) example_store
     = Inl (CommitError (NotNull ''comment.post_id''))
   \<and> status (fst (handle example_env (DELETE_post 1) (example_request [] (Some (token_of 2)))
        example_store)) = 500
   \<and> snd (handle example_env (DELETE_post 1) (example_request [] (Some (token_of 2)))
        example_store) = example_store
   \<and> pending_write example_env (DELETE_post 2) (example_request [] (Some (token_of 2)))
        example_store = Some (DeletePost 2)
   \<and> commit example_env (DeletePost 2) example_store
     = Inr (example_store\<lparr>posts := [hd (posts example_store)]\<rparr>)
   \<and> snd (handle example_env (DELETE_post 2) (example_request [] (Some (token_of 2)))
        example_store) = example_store\<lparr>posts := [hd (posts example_store)]\<rparr>
   \<and> pending_write example_env (DELETE_post 9) (example_request [] (Some (token_of 2)))
        example_store = None
   \<and> snd (handle example_env (DELETE_post 9) (example_request [] (Some (token_of 2)))
        example_store) = example_store"
proof -
  let ?e = "example_env\<lparr>store_fault := True\<rparr>"
  let ?req = "example_request [(''title'', PyStr ''t3''), (''content'', PyStr ''c3'')]
         (Some (token_of 1))"
  let ?del = "example_request [] (Some (token_of 2))"
  let ?s2 = "example_store\<lparr>posts := [hd (posts example_store)]\<rparr>"
  have v: "verify (secret example_env) (now example_env) (token_of 1) = Inr (PyStr ''1'')"
    using verify_token_of [of 1] by (simp add: py_str_1)
  have a: "pending_write ?e POST_posts ?req example_store
      = Some (AddPost (PyStr ''t3'') (PyStr ''c3'') (PyStr ''1''))"
    by (simp add: identity_def example_request_simps v dict_get_def)
  have b: "commit ?e (AddPost (PyStr ''t3'') (PyStr ''c3'') (PyStr ''1'')) example_store
      = Inl (CommitError StoreFault)"
    by (simp add: commit_def)
  have c: "pending_write example_env (DELETE_post 1) ?del example_store = Some (DeletePost 1)"
    by (simp add: identity_def example_request_simps verify_token_of post_get_def
        example_store_def)
  have d: "commit example_env (DeletePost 1) example_store
      = Inl (CommitError (NotNull ''comment.post_id''))"
    by (simp add: commit_def example_env_simps example_store_def)
  have f: "pending_write example_env (DELETE_post 2) ?del example_store = Some (DeletePost 2)"
    by (simp add: identity_def example_request_simps verify_token_of post_get_def
        example_store_def)
  have g: "commit example_env (DeletePost 2) example_store = Inr ?s2"
    by (simp add: commit_def example_env_simps example_store_def)
  have h: "pending_write example_env (DELETE_post 9) ?del example_store = None"
    by (simp add: identity_def example_request_simps verify_token_of post_get_def
        example_store_def)
  have m: "mutating POST_posts" "mutating (DELETE_post 1)" "mutating (DELETE_post 2)"
    "mutating (DELETE_post 9)"
    by simp_all
  note t1 = failed_commit_is_server_error [OF m(1), of ?e ?req example_store
      "AddPost (PyStr ''t3'') (PyStr ''c3'') (PyStr ''1'')" "CommitError StoreFault"]
  note t2 = failed_commit_is_server_error [OF m(2), of example_env ?del example_store
      "DeletePost 1" "CommitError (NotNull ''comment.post_id'')"]
  note t3 = failed_commit_is_server_error [OF m(3), of example_env ?del example_store
      "DeletePost 2" _ ?s2]
  note t4 = failed_commit_is_server_error [OF m(4), of example_env ?del example_store]
  from t1 a b have r1: "status (fst (handle ?e POST_posts ?req example_store)) = 500"
    "snd (handle ?e POST_posts ?req example_store) = example_store"
    by blast+
  from t2 c d have r2: "status (fst (handle example_env (DELETE_post 1) ?del example_store)) = 500"
    "snd (handle example_env (DELETE_post 1) ?del example_store) = example_store"
    by blast+
  from t3 f g have r3: "snd (handle example_env (DELETE_post 2) ?del example_store) = ?s2"
    by blast
  from t4 h have r4: "snd (handle example_env (DELETE_post 9) ?del example_store) = example_store"
    by blast
  show ?thesis
    by (intro conjI) (rule a b c d f g h r1 r2 r3 r4)+
qed

end
